theory Spec2Isabelle
  imports Complex_Main "HOL-Library.Word"
begin

section \<open>Python exceptions\<close>

text \<open>
  An exception is its class and the text that \<open>str(e)\<close> gives. The classes are the ones
  the two modules can raise themselves; \<open>RuntimeError\<close> stands for whatever the policy
  engine behind \<open>rl_core\<close> raises. Message texts follow CPython, shortened where
  CPython's text quotes a value; no property below depends on their wording.
\<close>

datatype exc_class =
  IncompleteReadError | ValueError | StructError | IndexError | KeyError | TypeError
  | AttributeError | RuntimeError

datatype exn = Exn exc_class string

fun str_exn :: "exn \<Rightarrow> string" where
  "str_exn (Exn c msg) = msg"

fun exn_class :: "exn \<Rightarrow> exc_class" where
  "exn_class (Exn c msg) = c"

section \<open>The rollout orchestrator: \<open>CustomPPO\<close> (sb3\_ppo\_override.py)\<close>

subsection \<open>Data\<close>

text \<open>
  Python lists are objects: \<open>self.episode_rewards = episode_rewards\<close> stores a reference,
  and \<open>append\<close> changes the object every holder of the reference sees. The list objects
  that hold reward histories live in a store, and the model keeps a reference into it.
  Rewards are Python floats; they are modelled as reals (no rounding).
\<close>

type_synonym ref = nat
type_synonym heap = "ref \<Rightarrow> real list"

definition list_append :: "heap \<Rightarrow> ref \<Rightarrow> real \<Rightarrow> heap" where
  "list_append h r x = h(r := h r @ [x])"

text \<open>
  The default value of the parameter \<open>episode_rewards: List[float] = []\<close> is one list
  object, created when the \<open>def __init__\<close> statement is executed, and used by every call
  that omits the argument. \<open>heap0\<close> is the store at that moment.
\<close>

definition default_episode_rewards :: ref where
  "default_episode_rewards = 0"

definition heap0 :: heap where
  "heap0 = (\<lambda>r. [])"

text \<open>What \<open>rollout_buffer.add\<close> is given (the value and log-probability come from the
  policy network and are left out).\<close>

record entry =
  e_obs :: "real list"
  e_action :: "int list"
  e_reward :: real
  episode_start :: bool

record transition =
  obs :: "real list"
  action :: "int list"
  reward :: real
  next_obs :: "real list"
  done_flag :: bool

text \<open>
  The fields of a \<open>CustomPPO\<close> that the two methods read or write. \<open>n_steps\<close> and
  \<open>rollout_buffer\<close> belong to the Stable-Baselines3 base class: the buffer is absent
  (\<open>None\<close>) until the base class has set the model up, which creates the policy and the
  buffer together, and its \<open>pos\<close> is the number of entries added since the last
  \<open>reset\<close>. On an object that is not set up both methods raise \<open>AttributeError\<close> where
  they first use the policy.
\<close>

record CustomPPO =
  last_done :: bool
  times_trained :: int
  boss_name :: "string option"
  save_freq :: int
  episodes_completed :: int
  episode_rewards :: ref
  current_episode_reward :: real
  n_steps :: int
  rollout_buffer :: "entry list option"

definition pos :: "CustomPPO \<Rightarrow> nat" where
  "pos s = (case rollout_buffer s of None \<Rightarrow> 0 | Some buf \<Rightarrow> length buf)"

text \<open>The calls made to the base class, in order: \<open>self.save\<close> (with the boss whose
  directory it writes to and the episode count printed), \<open>rollout_buffer.add\<close> and
  \<open>self.train\<close> (with the buffer it trains on).\<close>

datatype call = Save string int | Add entry | Train "entry list"

fun is_Save :: "call \<Rightarrow> bool" where
  "is_Save (Save b n) = True"
| "is_Save c = False"

fun is_Train :: "call \<Rightarrow> bool" where
  "is_Train (Train buf) = True"
| "is_Train c = False"

fun added :: "call list \<Rightarrow> entry list" where
  "added [] = []"
| "added (Add e # cs) = e # added cs"
| "added (c # cs) = added cs"

subsection \<open>\<open>__init__\<close>\<close>

text \<open>
  \<open>CustomPPO_init n buf boss sf tt ec er\<close>: \<open>n\<close> and \<open>buf\<close> are the \<open>n_steps\<close> and the
  rollout buffer that \<open>super().__init__\<close> has set (\<open>buf = None\<close> under
  \<open>_init_setup_model=False\<close>); the others are the keyword arguments, \<open>er = None\<close> when
  \<open>episode_rewards\<close> is omitted. The method creates no list and changes none.
\<close>

definition CustomPPO_init ::
  "int \<Rightarrow> entry list option \<Rightarrow> string option \<Rightarrow> int \<Rightarrow> int \<Rightarrow> int \<Rightarrow> ref option \<Rightarrow> CustomPPO" where
  "CustomPPO_init n buf boss sf tt ec er =
     \<lparr> last_done = False,
       times_trained = tt,
       boss_name = boss,
       save_freq = sf,
       episodes_completed = ec,
       episode_rewards = (case er of None \<Rightarrow> default_episode_rewards | Some r \<Rightarrow> r),
       current_episode_reward = 0,
       n_steps = n,
       rollout_buffer = (case buf of None \<Rightarrow> None | Some b \<Rightarrow> Some []) \<rparr>"

text \<open>The constructor called with the defaults of its keyword arguments
  (\<open>save_freq=50\<close>, \<open>times_trained=0\<close>, \<open>episodes_completed=0\<close>, \<open>episode_rewards\<close>
  omitted) on a base class that has set the model up.\<close>

definition CustomPPO_new :: "int \<Rightarrow> string option \<Rightarrow> CustomPPO" where
  "CustomPPO_new n boss = CustomPPO_init n (Some []) boss 50 0 0 None"

subsection \<open>\<open>finish_rollout_and_train\<close> and \<open>store_transition\<close>\<close>

text \<open>
  A method returns the exception it raised (if any), the calls it made, the store and the
  object as it left them: what was assigned before a raise stays assigned.
\<close>

type_synonym outcome = "exn option \<times> call list \<times> heap \<times> CustomPPO"

definition finish_rollout_and_train :: "heap \<Rightarrow> CustomPPO \<Rightarrow> real list \<Rightarrow> outcome" where
  "finish_rollout_and_train h s nxt =
     (case rollout_buffer s of
        None \<Rightarrow>
          (Some (Exn AttributeError ''CustomPPO object has no attribute policy''),
           [], h, s)
      | Some buf \<Rightarrow>
          let s1 = s\<lparr>rollout_buffer := Some []\<rparr>;
              s2 = s1\<lparr>times_trained := times_trained s1 + 1\<rparr>;
              s3 = s2\<lparr>episodes_completed := episodes_completed s2 + 1\<rparr>;
              h1 = list_append h (episode_rewards s3) (current_episode_reward s3);
              s4 = s3\<lparr>current_episode_reward := 0\<rparr>
          in (None, [Train buf], h1, s4))"

text \<open>The checkpoint branch of \<open>store_transition\<close> (lines 165 to 171):
  \<open>os.path.join("models", None)\<close> raises \<open>TypeError\<close> when there is no boss name.\<close>

definition checkpoint :: "CustomPPO \<Rightarrow> exn option \<times> call list" where
  "checkpoint s =
     (if save_freq s \<noteq> 0 \<and> episodes_completed s mod save_freq s = 0 then
        (case boss_name s of
           None \<Rightarrow>
             (Some (Exn TypeError
                ''expected str, bytes or os.PathLike object, not NoneType''), [])
         | Some b \<Rightarrow> (None, [Save b (episodes_completed s)]))
      else (None, []))"

definition store_transition :: "heap \<Rightarrow> CustomPPO \<Rightarrow> transition \<Rightarrow> outcome" where
  "store_transition h s t =
     (let s1 = s\<lparr>current_episode_reward := current_episode_reward s + reward t\<rparr>;
          s2 = (if done_flag t then s1\<lparr>episodes_completed := episodes_completed s1 + 1\<rparr>
                else s1);
          h1 = (if done_flag t
                then list_append h (episode_rewards s2) (current_episode_reward s2) else h);
          s3 = (if done_flag t then s2\<lparr>current_episode_reward := 0\<rparr> else s2);
          (e1, c1) = (if done_flag t then checkpoint s3 else (None, []))
      in case e1 of
           Some e \<Rightarrow> (Some e, c1, h1, s3)
         | None \<Rightarrow>
            (case rollout_buffer s3 of
               None \<Rightarrow>
                 (Some (Exn AttributeError
                    ''CustomPPO object has no attribute policy''), c1, h1, s3)
             | Some buf \<Rightarrow>
                 let en = \<lparr> e_obs = obs t, e_action = action t, e_reward = reward t,
                            episode_start = last_done s3 \<rparr>;
                     s4 = s3\<lparr>rollout_buffer := Some (buf @ [en])\<rparr>;
                     s5 = s4\<lparr>last_done := done_flag t\<rparr>
                 in if n_steps s5 \<le> int (pos s5) then
                      (case finish_rollout_and_train h1 s5 (next_obs t) of
                         (e2, c2, h2, s6) \<Rightarrow> (e2, c1 @ [Add en] @ c2, h2, s6))
                    else (None, c1 @ [Add en], h1, s5)))"

definition out_exn :: "outcome \<Rightarrow> exn option" where
  "out_exn r = fst r"

definition out_calls :: "outcome \<Rightarrow> call list" where
  "out_calls r = fst (snd r)"

definition out_heap :: "outcome \<Rightarrow> heap" where
  "out_heap r = fst (snd (snd r))"

definition out_model :: "outcome \<Rightarrow> CustomPPO" where
  "out_model r = snd (snd (snd r))"

text \<open>A sequence of \<open>store_transition\<close> calls on the same object, each made whatever
  the one before it did (the server answers an exception with an error message and goes
  on): the calls made to the base class, the final store and the final object.\<close>

fun run :: "heap \<Rightarrow> CustomPPO \<Rightarrow> transition list \<Rightarrow> call list \<times> heap \<times> CustomPPO" where
  "run h s [] = ([], h, s)"
| "run h s (t # ts) =
     (case store_transition h s t of
        (e, c, h1, s1) \<Rightarrow> (case run h1 s1 ts of (cs, h2, s2) \<Rightarrow> (c @ cs, h2, s2)))"

definition calls_of :: "call list \<times> heap \<times> CustomPPO \<Rightarrow> call list" where
  "calls_of r = fst r"

definition heap_of :: "call list \<times> heap \<times> CustomPPO \<Rightarrow> heap" where
  "heap_of r = fst (snd r)"

definition model_of :: "call list \<times> heap \<times> CustomPPO \<Rightarrow> CustomPPO" where
  "model_of r = snd (snd r)"

text \<open>The episode-reward history of an object: the contents of the list it refers to.\<close>

definition history :: "heap \<Rightarrow> CustomPPO \<Rightarrow> real list" where
  "history h s = h (episode_rewards s)"

definition trains :: "call list \<Rightarrow> nat" where
  "trains cs = length (filter is_Train cs)"

definition saves :: "call list \<Rightarrow> call list" where
  "saves cs = filter is_Save cs"

definition dones :: "transition list \<Rightarrow> nat" where
  "dones ts = length (filter done_flag ts)"

section \<open>The socket server (socket\_server\_async.py)\<close>

subsection \<open>Bytes, JSON values, message types\<close>

type_synonym byte = "8 word"

text \<open>The values \<open>json.loads\<close> returns and \<open>json.dumps\<close> accepts. A Python dict is the
  list of its items (keys distinct). \<open>JTuple\<close> is a Python tuple: \<open>json.dumps\<close> accepts
  it and writes it as it writes a list, and \<open>json.loads\<close> never returns one.\<close>

datatype json =
  JNull | JBool bool | JInt int | JFloat real | JStr string | JArr "json list"
  | JTuple "json list" | JObj "(string \<times> json) list"

datatype MessageType =
  INITIALIZE | GET_ACTION | STORE_TRANSITION
  | INIT_RESPONSE | ACTION_RESPONSE | TRANSITION_ACK | ERROR

fun msg_value :: "MessageType \<Rightarrow> nat" where
  "msg_value INITIALIZE = 0"
| "msg_value GET_ACTION = 1"
| "msg_value STORE_TRANSITION = 2"
| "msg_value INIT_RESPONSE = 10"
| "msg_value ACTION_RESPONSE = 11"
| "msg_value TRANSITION_ACK = 12"
| "msg_value ERROR = 255"

text \<open>\<open>MessageType(v)\<close>: the member with value \<open>v\<close>, or \<open>ValueError\<close>.\<close>

definition MessageType_of :: "nat \<Rightarrow> exn + MessageType" where
  "MessageType_of v =
     (if v = 0 then Inr INITIALIZE
      else if v = 1 then Inr GET_ACTION
      else if v = 2 then Inr STORE_TRANSITION
      else if v = 10 then Inr INIT_RESPONSE
      else if v = 11 then Inr ACTION_RESPONSE
      else if v = 12 then Inr TRANSITION_ACK
      else if v = 255 then Inr ERROR
      else Inl (Exn ValueError ''not a valid MessageType''))"

subsection \<open>\<open>struct.pack('>I', n)\<close>, \<open>struct.unpack('>I', bs)\<close> and \<open>readexactly\<close>\<close>

definition pack_be32 :: "nat \<Rightarrow> exn + byte list" where
  "pack_be32 n =
     (if n < 2 ^ 32 then
        Inr [of_nat (n div 2 ^ 24), of_nat (n div 2 ^ 16 mod 256),
             of_nat (n div 2 ^ 8 mod 256), of_nat (n mod 256)]
      else Inl (Exn StructError ''I format requires 0 <= number <= 4294967295''))"

fun unpack_be32 :: "byte list \<Rightarrow> exn + nat" where
  "unpack_be32 [a, b, c, d] =
     Inr (unat a * 2 ^ 24 + unat b * 2 ^ 16 + unat c * 2 ^ 8 + unat d)"
| "unpack_be32 bs = Inl (Exn StructError ''unpack requires a buffer of 4 bytes'')"

text \<open>
  The reader is the list of bytes the peer sends before it closes its end.
  \<open>readexactly n\<close> returns the next \<open>n\<close> bytes and the reader after them, or raises
  \<open>IncompleteReadError\<close> when the peer closes before \<open>n\<close> bytes have come.
\<close>

definition readexactly :: "byte list \<Rightarrow> nat \<Rightarrow> exn + (byte list \<times> byte list)" where
  "readexactly rd n =
     (if n \<le> length rd then Inr (take n rd, drop n rd)
      else Inl (Exn IncompleteReadError ''bytes read on a total of expected bytes''))"

subsection \<open>\<open>receive_message\<close> and \<open>send_message\<close>\<close>

text \<open>
  The JSON library is a parameter: \<open>loads bs\<close> is
  \<open>json.loads(bs.decode('utf-8'))\<close>, \<open>None\<close> when it raises (\<open>UnicodeDecodeError\<close> and
  \<open>JSONDecodeError\<close> are both \<open>ValueError\<close>s); \<open>dumps p\<close> is
  \<open>json.dumps(p).encode('utf-8')\<close>, which returns for every value of type \<open>json\<close>.
  \<open>receive_message\<close> returns the message and the reader after it.
\<close>

definition receive_message ::
  "(byte list \<Rightarrow> json option) \<Rightarrow> byte list \<Rightarrow> exn + ((MessageType \<times> json) \<times> byte list)" where
  "receive_message loads rd =
     (case readexactly rd 4 of
        Inl e \<Rightarrow> Inl e
      | Inr (length_bytes, rd1) \<Rightarrow>
          (case unpack_be32 length_bytes of
             Inl e \<Rightarrow> Inl e
           | Inr len \<Rightarrow>
               (case readexactly rd1 1 of
                  Inl e \<Rightarrow> Inl e
                | Inr (msg_type_byte, rd2) \<Rightarrow>
                    (case msg_type_byte of
                       [] \<Rightarrow> Inl (Exn IndexError ''index out of range'')
                     | b # bs \<Rightarrow>
                         (case MessageType_of (unat b) of
                            Inl e \<Rightarrow> Inl e
                          | Inr msg_type \<Rightarrow>
                              if 1 < len then
                                (case readexactly rd2 (len - 1) of
                                   Inl e \<Rightarrow> Inl e
                                 | Inr (payload_bytes, rd3) \<Rightarrow>
                                     (case loads payload_bytes of
                                        None \<Rightarrow> Inl (Exn ValueError ''malformed JSON'')
                                      | Some payload \<Rightarrow> Inr ((msg_type, payload), rd3)))
                              else Inr ((msg_type, JObj []), rd2))))))"

text \<open>\<open>send_message\<close> returns the bytes it writes. The writer takes every write.\<close>

definition send_message ::
  "(json \<Rightarrow> byte list) \<Rightarrow> MessageType \<Rightarrow> json \<Rightarrow> exn + byte list" where
  "send_message dumps msg_type payload =
     (let payload_bytes = dumps payload;
          len = 1 + length payload_bytes
      in case pack_be32 len of
           Inl e \<Rightarrow> Inl e
         | Inr length_bytes \<Rightarrow>
             Inr (length_bytes @ [of_nat (msg_value msg_type)] @ payload_bytes))"

subsection \<open>Reading a payload\<close>

definition quoted :: "string \<Rightarrow> string" where
  "quoted k = [CHR 0x27] @ k @ [CHR 0x27]"

fun type_name :: "json \<Rightarrow> string" where
  "type_name JNull = ''NoneType''"
| "type_name (JBool b) = ''bool''"
| "type_name (JInt i) = ''int''"
| "type_name (JFloat x) = ''float''"
| "type_name (JStr s) = ''str''"
| "type_name (JArr xs) = ''list''"
| "type_name (JTuple xs) = ''tuple''"
| "type_name (JObj kvs) = ''dict''"

text \<open>\<open>payload[k]\<close> for a string \<open>k\<close>: \<open>KeyError\<close> on a dict without the key,
  \<open>TypeError\<close> on anything that is not a dict.\<close>

fun getitem :: "json \<Rightarrow> string \<Rightarrow> exn + json" where
  "getitem (JObj kvs) k =
     (case map_of kvs k of None \<Rightarrow> Inl (Exn KeyError (quoted k)) | Some v \<Rightarrow> Inr v)"
| "getitem (JArr xs) k = Inl (Exn TypeError ''list indices must be integers or slices, not str'')"
| "getitem (JTuple xs) k =
     Inl (Exn TypeError ''tuple indices must be integers or slices, not str'')"
| "getitem (JStr s) k = Inl (Exn TypeError ''string indices must be integers, not str'')"
| "getitem j k = Inl (Exn TypeError (quoted (type_name j) @ '' object is not subscriptable''))"

text \<open>\<open>payload.get(k, d)\<close>: only a dict has the method.\<close>

fun get_default :: "json \<Rightarrow> string \<Rightarrow> json \<Rightarrow> exn + json" where
  "get_default (JObj kvs) k d = (case map_of kvs k of None \<Rightarrow> Inr d | Some v \<Rightarrow> Inr v)"
| "get_default j k d =
     Inl (Exn AttributeError (quoted (type_name j) @ '' object has no attribute get''))"

definition bind_exn :: "exn + 'a \<Rightarrow> ('a \<Rightarrow> exn + 'b) \<Rightarrow> exn + 'b" where
  "bind_exn m f = (case m of Inl e \<Rightarrow> Inl e | Inr x \<Rightarrow> f x)"

subsection \<open>The functions imported from \<open>rl_core\<close>\<close>

text \<open>
  \<open>rl_core.py\<close> is not among the sources. Its three functions are parameters: each takes
  the state of the training process (of any type \<open>'st\<close>), returns a value or raises, and
  leaves a state behind in both cases.
\<close>

record 'st rl_core =
  initialize_model ::
    "json \<Rightarrow> json \<Rightarrow> json \<Rightarrow> json \<Rightarrow> json \<Rightarrow> json \<Rightarrow> json \<Rightarrow> 'st \<Rightarrow> (exn + json) \<times> 'st"
  rl_get_action :: "json \<Rightarrow> 'st \<Rightarrow> (exn + json) \<times> 'st"
  rl_store_transition ::
    "json \<Rightarrow> json \<Rightarrow> json \<Rightarrow> json \<Rightarrow> json \<Rightarrow> 'st \<Rightarrow> (exn + unit) \<times> 'st"

subsection \<open>The handlers\<close>

text \<open>A handler returns the exception it raised (if any), the messages it wrote and the
  state of the training process.\<close>

type_synonym 'st handled = "exn option \<times> byte list list \<times> 'st"

definition respond ::
  "(json \<Rightarrow> byte list) \<Rightarrow> MessageType \<Rightarrow> json \<Rightarrow> 'st \<Rightarrow> 'st handled" where
  "respond dumps msg_type response st =
     (case send_message dumps msg_type response of
        Inl e \<Rightarrow> (Some e, [], st)
      | Inr full_message \<Rightarrow> (None, [full_message], st))"

definition initialize_args ::
  "json \<Rightarrow> exn + (json \<times> json \<times> json \<times> json \<times> json \<times> json \<times> json)" where
  "initialize_args payload =
     bind_exn (getitem payload ''boss_name'') (\<lambda>boss.
     bind_exn (getitem payload ''observation_size'') (\<lambda>obs_size.
     bind_exn (get_default payload ''action_space_shape'' JNull) (\<lambda>action_space_shape.
     bind_exn (get_default payload ''observation_type'' (JStr ''vector'')) (\<lambda>observation_type.
     bind_exn (get_default payload ''vector_obs_size'' obs_size) (\<lambda>vector_obs_size.
     bind_exn (get_default payload ''visual_width'' (JInt 0)) (\<lambda>visual_width.
     bind_exn (get_default payload ''visual_height'' (JInt 0)) (\<lambda>visual_height.
     Inr (boss, obs_size, action_space_shape, observation_type, vector_obs_size,
          visual_width, visual_height))))))))"

definition initialize_response :: "json \<Rightarrow> exn + json" where
  "initialize_response init_response =
     bind_exn (getitem init_response ''initialized'') (\<lambda>initialized.
     bind_exn (getitem init_response ''boss_name'') (\<lambda>boss.
     bind_exn (getitem init_response ''observation_size'') (\<lambda>observation_size.
     bind_exn (getitem init_response ''checkpoint_loaded'') (\<lambda>checkpoint_loaded.
     Inr (JObj [(''initialized'', initialized), (''boss_name'', boss),
                (''observation_size'', observation_size),
                (''checkpoint_loaded'', checkpoint_loaded)])))))"

definition handle_initialize ::
  "(json \<Rightarrow> byte list) \<Rightarrow> 'st rl_core \<Rightarrow> json \<Rightarrow> 'st \<Rightarrow> 'st handled" where
  "handle_initialize dumps rl payload st =
     (case initialize_args payload of
        Inl e \<Rightarrow> (Some e, [], st)
      | Inr (boss, obs_size, action_space_shape, observation_type, vector_obs_size,
             visual_width, visual_height) \<Rightarrow>
          (case initialize_model rl obs_size boss action_space_shape observation_type
                  vector_obs_size visual_width visual_height st of
             (Inl e, st1) \<Rightarrow> (Some e, [], st1)
           | (Inr init_response, st1) \<Rightarrow>
               (case initialize_response init_response of
                  Inl e \<Rightarrow> (Some e, [], st1)
                | Inr response \<Rightarrow> respond dumps INIT_RESPONSE response st1)))"

definition handle_get_action ::
  "(json \<Rightarrow> byte list) \<Rightarrow> 'st rl_core \<Rightarrow> json \<Rightarrow> 'st \<Rightarrow> 'st handled" where
  "handle_get_action dumps rl payload st =
     (case getitem payload ''state'' of
        Inl e \<Rightarrow> (Some e, [], st)
      | Inr state \<Rightarrow>
          (case rl_get_action rl state st of
             (Inl e, st1) \<Rightarrow> (Some e, [], st1)
           | (Inr act, st1) \<Rightarrow>
               respond dumps ACTION_RESPONSE (JObj [(''action'', act)]) st1))"

definition store_transition_args ::
  "json \<Rightarrow> exn + (json \<times> json \<times> json \<times> json \<times> json)" where
  "store_transition_args payload =
     bind_exn (getitem payload ''state'') (\<lambda>state.
     bind_exn (getitem payload ''action'') (\<lambda>act.
     bind_exn (getitem payload ''reward'') (\<lambda>rew.
     bind_exn (getitem payload ''next_state'') (\<lambda>next_state.
     bind_exn (getitem payload ''done'') (\<lambda>dn.
     Inr (state, act, rew, next_state, dn))))))"

definition handle_store_transition ::
  "(json \<Rightarrow> byte list) \<Rightarrow> 'st rl_core \<Rightarrow> json \<Rightarrow> 'st \<Rightarrow> 'st handled" where
  "handle_store_transition dumps rl payload st =
     (case store_transition_args payload of
        Inl e \<Rightarrow> (Some e, [], st)
      | Inr (state, act, rew, next_state, dn) \<Rightarrow>
          (case rl_store_transition rl state act rew next_state dn st of
             (Inl e, st1) \<Rightarrow> (Some e, [], st1)
           | (Inr u, st1) \<Rightarrow>
               respond dumps TRANSITION_ACK (JObj [(''success'', JBool True)]) st1))"

subsection \<open>\<open>process_message\<close> and the loop of \<open>handle_client\<close>\<close>

text \<open>The body of the \<open>try\<close> in \<open>process_message\<close>: three branches, and no \<open>else\<close>.\<close>

definition dispatch ::
  "(json \<Rightarrow> byte list) \<Rightarrow> 'st rl_core \<Rightarrow> MessageType \<Rightarrow> json \<Rightarrow> 'st \<Rightarrow> 'st handled" where
  "dispatch dumps rl msg_type payload st =
     (if msg_type = INITIALIZE then handle_initialize dumps rl payload st
      else if msg_type = GET_ACTION then handle_get_action dumps rl payload st
      else if msg_type = STORE_TRANSITION then handle_store_transition dumps rl payload st
      else (None, [], st))"

text \<open>The \<open>except Exception\<close> clause sends the error message; an exception raised there
  leaves \<open>process_message\<close>.\<close>

definition process_message ::
  "(json \<Rightarrow> byte list) \<Rightarrow> 'st rl_core \<Rightarrow> MessageType \<Rightarrow> json \<Rightarrow> 'st \<Rightarrow> 'st handled" where
  "process_message dumps rl msg_type payload st =
     (case dispatch dumps rl msg_type payload st of
        (None, out, st1) \<Rightarrow> (None, out, st1)
      | (Some e, out, st1) \<Rightarrow>
          (case send_message dumps ERROR (JObj [(''error'', JStr (str_exn e))]) of
             Inl e2 \<Rightarrow> (Some e2, out, st1)
           | Inr full_message \<Rightarrow> (None, out @ [full_message], st1)))"

text \<open>
  The \<open>while True\<close> loop of \<open>handle_client\<close>. \<open>receive_message\<close> never returns \<open>None\<close>,
  so the loop ends by an exception only: one that \<open>receive_message\<close> raises (at the
  latest \<open>IncompleteReadError\<close>, when the peer has closed) or one that leaves
  \<open>process_message\<close>. Both \<open>except\<close> clauses of \<open>handle_client\<close> print and
  fall through to \<open>finally\<close>, which closes the writer. The result is the messages
  written, the state of the training process and the exception that ended the loop.
\<close>

function handle_client_loop ::
  "(json \<Rightarrow> byte list) \<Rightarrow> (byte list \<Rightarrow> json option) \<Rightarrow> 'st rl_core \<Rightarrow> byte list \<Rightarrow> 'st
     \<Rightarrow> byte list list \<times> 'st \<times> exn" where
  "handle_client_loop dumps loads rl rd st =
     (case receive_message loads rd of
        Inl e \<Rightarrow> ([], st, e)
      | Inr ((msg_type, payload), rd1) \<Rightarrow>
          (case process_message dumps rl msg_type payload st of
             (Some e, out, st1) \<Rightarrow> (out, st1, e)
           | (None, out, st1) \<Rightarrow>
               (case handle_client_loop dumps loads rl rd1 st1 of
                  (outs, st2, e) \<Rightarrow> (out @ outs, st2, e))))"
  by pat_completeness auto
termination
  by (relation "measure (\<lambda>(dumps, loads, rl, rd, st). length rd)")
     (auto simp: receive_message_def readexactly_def
           split: sum.splits prod.splits list.splits if_splits option.splits)

declare handle_client_loop.simps [simp del]

record 'st closed_connection =
  written :: "byte list list"
  final_state :: 'st
  ended_by :: exn
  writer_closed :: bool

definition handle_client ::
  "(json \<Rightarrow> byte list) \<Rightarrow> (byte list \<Rightarrow> json option) \<Rightarrow> 'st rl_core \<Rightarrow> byte list \<Rightarrow> 'st
     \<Rightarrow> 'st closed_connection" where
  "handle_client dumps loads rl rd st =
     (case handle_client_loop dumps loads rl rd st of
        (outs, st1, e) \<Rightarrow>
          \<lparr> written = outs, final_state = st1, ended_by = e, writer_closed = True \<rparr>)"

section \<open>Example inputs\<close>

text \<open>A transition with empty observations and action, a reward and a done flag.\<close>

definition tr :: "real \<Rightarrow> bool \<Rightarrow> transition" where
  "tr r d = \<lparr> obs = [], action = [], reward = r, next_obs = [], done_flag = d \<rparr>"

text \<open>
  An example of the JSON library, for the concrete inputs below. \<open>ex_dumps\<close> writes what
  \<open>json.dumps\<close> writes (separators \<open>", "\<close> and \<open>": "\<close>) for values built from
  \<open>null\<close>, booleans, integers, strings of plain ASCII without quotes or backslashes,
  lists, tuples and dicts; a float is written as its integer part followed by \<open>.0\<close>, which is
  right for integral floats only. \<open>ex_loads\<close> is a parser that knows four documents and
  rejects every other byte string.
\<close>

definition bytes_of :: "string \<Rightarrow> byte list" where
  "bytes_of s = map (\<lambda>c. of_nat (of_char c)) s"

definition digit_char :: "nat \<Rightarrow> char" where
  "digit_char d = char_of (48 + d)"

function show_nat :: "nat \<Rightarrow> string" where
  "show_nat n = (if n < 10 then [digit_char n] else show_nat (n div 10) @ [digit_char (n mod 10)])"
  by pat_completeness auto
termination
  by (relation "measure (\<lambda>n. n)") auto

declare show_nat.simps [simp del]

definition show_int :: "int \<Rightarrow> string" where
  "show_int i = (if i < 0 then CHR ''-'' # show_nat (nat (- i)) else show_nat (nat i))"

fun join_with :: "string \<Rightarrow> string list \<Rightarrow> string" where
  "join_with sep [] = []"
| "join_with sep [x] = x"
| "join_with sep (x # y # ys) = x @ sep @ join_with sep (y # ys)"

definition dquoted :: "string \<Rightarrow> string" where
  "dquoted s = [CHR 0x22] @ s @ [CHR 0x22]"

fun ex_json :: "json \<Rightarrow> string" where
  "ex_json JNull = ''null''"
| "ex_json (JBool b) = (if b then ''true'' else ''false'')"
| "ex_json (JInt i) = show_int i"
| "ex_json (JFloat x) = show_int (floor x) @ ''.0''"
| "ex_json (JStr s) = dquoted s"
| "ex_json (JArr xs) = ''['' @ join_with '', '' (map ex_json xs) @ '']''"
| "ex_json (JTuple xs) = ''['' @ join_with '', '' (map ex_json xs) @ '']''"
| "ex_json (JObj kvs) =
     ''{'' @ join_with '', '' (map (\<lambda>kv. dquoted (fst kv) @ '': '' @ ex_json (snd kv)) kvs) @ ''}''"

definition ex_dumps :: "json \<Rightarrow> byte list" where
  "ex_dumps p = bytes_of (ex_json p)"

definition ex_docs :: "json list" where
  "ex_docs =
     [JObj [],
      JObj [(''state'', JArr [])],
      JObj [(''boss_name'', JStr ''hornet''), (''observation_size'', JInt 4)],
      JObj [(''action'', JArr [JInt 0, JInt 1])]]"

definition ex_loads :: "byte list \<Rightarrow> json option" where
  "ex_loads bs = find (\<lambda>p. ex_dumps p = bs) ex_docs"

text \<open>
  An example of \<open>rl_core\<close>: the state says whether a model has been initialised;
  \<open>get_action\<close> and \<open>store_transition\<close> raise before that.
\<close>

definition ex_rl :: "bool rl_core" where
  "ex_rl =
     \<lparr> initialize_model = (\<lambda>obs_size boss shape ty vec w h st.
          (Inr (JObj [(''initialized'', JBool True), (''boss_name'', boss),
                      (''observation_size'', obs_size), (''checkpoint_loaded'', JBool False)]),
           True)),
       rl_get_action = (\<lambda>state st.
          if st then (Inr (JArr [JInt 0]), st)
          else (Inl (Exn RuntimeError ''Model not initialized''), st)),
       rl_store_transition = (\<lambda>state act rew next_state dn st.
          if st then (Inr (), st)
          else (Inl (Exn RuntimeError ''Model not initialized''), st)) \<rparr>"

text \<open>A string of \<open>2 ^ 32\<close> letters.\<close>

definition long_text :: string where
  "long_text = replicate (2 ^ 32) CHR ''x''"

text \<open>Four messages as they are on the wire: two requests and the two responses to
  them; and the response \<open>{"action": [0, 1]}\<close>.\<close>

definition action_frame :: "byte list" where
  "action_frame =
     [0, 0, 0, 19, 11, 123, 34, 97, 99, 116, 105, 111, 110, 34, 58, 32, 91, 48, 44, 32, 49, 93, 125]"

definition get_action_frame :: "byte list" where
  "get_action_frame = [0, 0, 0, 14, 1, 123, 34, 115, 116, 97, 116, 101, 34, 58, 32, 91, 93, 125]"

definition initialize_frame :: "byte list" where
  "initialize_frame =
     [0, 0, 0, 47, 0, 123, 34, 98, 111, 115, 115, 95, 110, 97, 109, 101, 34, 58, 32, 34, 104, 111,
      114, 110, 101, 116, 34, 44, 32, 34, 111, 98, 115, 101, 114, 118, 97, 116, 105, 111, 110, 95,
      115, 105, 122, 101, 34, 58, 32, 52, 125]"

definition error_frame :: "byte list" where
  "error_frame =
     [0, 0, 0, 35, 255, 123, 34, 101, 114, 114, 111, 114, 34, 58, 32, 34, 77, 111, 100, 101, 108,
      32, 110, 111, 116, 32, 105, 110, 105, 116, 105, 97, 108, 105, 122, 101, 100, 34, 125]"

definition init_response_frame :: "byte list" where
  "init_response_frame =
     [0, 0, 0, 96, 10, 123, 34, 105, 110, 105, 116, 105, 97, 108, 105, 122, 101, 100, 34, 58, 32,
      116, 114, 117, 101, 44, 32, 34, 98, 111, 115, 115, 95, 110, 97, 109, 101, 34, 58, 32, 34,
      104, 111, 114, 110, 101, 116, 34, 44, 32, 34, 111, 98, 115, 101, 114, 118, 97, 116, 105,
      111, 110, 95, 115, 105, 122, 101, 34, 58, 32, 52, 44, 32, 34, 99, 104, 101, 99, 107, 112,
      111, 105, 110, 116, 95, 108, 111, 97, 100, 101, 100, 34, 58, 32, 102, 97, 108, 115, 101,
      125]"

section \<open>Properties of the rollout orchestrator\<close>

subsection \<open>One call of \<open>store_transition\<close>\<close>

lemma added_append: "added (xs @ ys) = added xs @ added ys"
  by (induction xs rule: added.induct) auto

lemma trains_append: "trains (xs @ ys) = trains xs + trains ys"
  by (simp add: trains_def)

lemma checkpoint_calls: "added (snd (checkpoint s)) = [] \<and> trains (snd (checkpoint s)) = 0"
  by (auto simp: checkpoint_def trains_def split: option.splits)

lemma checkpoint_no_raise:
  "boss_name s \<noteq> None \<Longrightarrow> fst (checkpoint s) = None"
  by (auto simp: checkpoint_def split: option.splits)

lemma store_transition_stores:
  assumes "rollout_buffer s = Some buf"
    and "\<not> done_flag t \<or> boss_name s \<noteq> None"
    and "store_transition h s t = (e, c, h1, s1)"
  shows "e = None \<and> boss_name s1 = boss_name s \<and> n_steps s1 = n_steps s
       \<and> save_freq s1 = save_freq s \<and> episode_rewards s1 = episode_rewards s
       \<and> last_done s1 = done_flag t
       \<and> map episode_start (added c) = [last_done s]
       \<and> (if n_steps s \<le> int (length buf) + 1
          then rollout_buffer s1 = Some [] \<and> trains c = 1
             \<and> times_trained s1 = times_trained s + 1
          else (\<exists>en. rollout_buffer s1 = Some (buf @ [en])) \<and> trains c = 0
             \<and> times_trained s1 = times_trained s)"
proof (cases "done_flag t")
  case False
  with assms(1,3) show ?thesis
    by (auto simp: store_transition_def Let_def pos_def finish_rollout_and_train_def trains_def
             split: if_splits)
next
  case True
  with assms(2) obtain b where b: "boss_name s = Some b" by auto
  with True assms(1,3) show ?thesis
    by (auto simp: store_transition_def Let_def pos_def finish_rollout_and_train_def trains_def
                   checkpoint_def added_append
             split: if_splits)
qed


lemma run_Cons:
  "store_transition h s t = (e, c, h1, s1) \<Longrightarrow>
   calls_of (run h s (t # ts)) = c @ calls_of (run h1 s1 ts)
   \<and> heap_of (run h s (t # ts)) = heap_of (run h1 s1 ts)
   \<and> model_of (run h s (t # ts)) = model_of (run h1 s1 ts)"
  by (simp add: calls_of_def heap_of_def model_of_def split: prod.splits)

lemma run_Nil:
  "calls_of (run h s []) = [] \<and> heap_of (run h s []) = h \<and> model_of (run h s []) = s"
  by (simp add: calls_of_def heap_of_def model_of_def)

lemma run_occupancy:
  assumes "rollout_buffer s = Some buf"
    and "int (length buf) < n_steps s"
    and "(\<forall>t \<in> set ts. \<not> done_flag t) \<or> boss_name s \<noteq> None"
  shows "n_steps (model_of (run h s ts)) = n_steps s
       \<and> (\<exists>buf'. rollout_buffer (model_of (run h s ts)) = Some buf'
             \<and> length buf' = (length buf + length ts) mod nat (n_steps s))
       \<and> trains (calls_of (run h s ts)) = (length buf + length ts) div nat (n_steps s)
       \<and> times_trained (model_of (run h s ts))
           = times_trained s + int ((length buf + length ts) div nat (n_steps s))"
  using assms
proof (induction ts arbitrary: h s buf)
  case Nil
  then show ?case by (simp add: calls_of_def model_of_def trains_def)
next
  case (Cons t ts)
  obtain e c h1 s1 where st: "store_transition h s t = (e, c, h1, s1)"
    by (cases "store_transition h s t") auto
  from Cons.prems(3) have ok: "\<not> done_flag t \<or> boss_name s \<noteq> None" by auto
  note step = store_transition_stores [OF Cons.prems(1) ok st]
  from step have same: "n_steps s1 = n_steps s" "boss_name s1 = boss_name s" by auto
  from Cons.prems(3) same have ok': "(\<forall>t \<in> set ts. \<not> done_flag t) \<or> boss_name s1 \<noteq> None"
    by auto
  define H where "H = nat (n_steps s)"
  from Cons.prems(2) have Hpos: "0 < H" and lt: "length buf < H" by (auto simp: H_def)
  show ?case
  proof (cases "n_steps s \<le> int (length buf) + 1")
    case True
    with step have b1: "rollout_buffer s1 = Some []" and tr: "trains c = 1"
      and tt: "times_trained s1 = times_trained s + 1" by auto
    from True lt have full: "length buf + 1 = H" by (auto simp: H_def)
    from Cons.prems(2) same have "int (length ([]::entry list)) < n_steps s1" by simp
    note ih = Cons.IH [OF b1 this ok', of h1]
    have m: "(length buf + length (t # ts)) mod H = length ts mod H"
      using full by (metis add.assoc add.commute length_Cons mod_add_self1 plus_1_eq_Suc)
    have d: "(length buf + length (t # ts)) div H = 1 + length ts div H"
      using full Hpos
      by (metis add.assoc add.commute div_add_self1 length_Cons less_numeral_extra(3) plus_1_eq_Suc)
    from ih m d tr tt same show ?thesis
      by (simp del: run.simps add: run_Cons [OF st] trains_append H_def)
  next
    case False
    with step obtain en where b1: "rollout_buffer s1 = Some (buf @ [en])"
      and tr: "trains c = 0" and tt: "times_trained s1 = times_trained s" by auto
    from False same have "int (length (buf @ [en])) < n_steps s1" by simp
    note ih = Cons.IH [OF b1 this ok', of h1]
    from ih tr tt same show ?thesis
      by (simp del: run.simps add: run_Cons [OF st] trains_append)
  qed
qed

lemma store_transition_bound:
  assumes "rollout_buffer s = Some buf" and "int (length buf) < n_steps s"
    and "store_transition h s t = (e, c, h1, s1)"
  shows "n_steps s1 = n_steps s
       \<and> (\<exists>buf'. rollout_buffer s1 = Some buf' \<and> int (length buf') < n_steps s1)"
  using assms
  by (auto simp: store_transition_def Let_def pos_def finish_rollout_and_train_def
           split: if_splits prod.splits option.splits)

lemma run_bound:
  assumes "rollout_buffer s = Some buf" and "int (length buf) < n_steps s"
  shows "n_steps (model_of (run h s ts)) = n_steps s
       \<and> (\<exists>buf'. rollout_buffer (model_of (run h s ts)) = Some buf'
             \<and> int (length buf') < n_steps s)"
  using assms
proof (induction ts arbitrary: h s buf)
  case Nil
  then show ?case by (simp add: model_of_def)
next
  case (Cons t ts)
  obtain e c h1 s1 where st: "store_transition h s t = (e, c, h1, s1)"
    by (cases "store_transition h s t") auto
  from store_transition_bound [OF Cons.prems st]
  obtain buf' where n: "n_steps s1 = n_steps s" and b: "rollout_buffer s1 = Some buf'"
    and l: "int (length buf') < n_steps s1" by auto
  from Cons.IH [OF b l, of h1] n show ?case
    by (simp del: run.simps add: run_Cons [OF st])
qed

subsection \<open>Buffer occupancy\<close>

text \<open>
  C1. Start from an object whose rollout buffer is empty, with a rollout horizon
  \<open>n_steps > 0\<close>. After \<open>N\<close> calls of \<open>store_transition\<close> with \<open>done = False\<close> the
  buffer holds \<open>N mod n_steps\<close> entries and \<open>N div n_steps\<close> training updates have been
  made: the occupancy is \<open>N\<close> while \<open>N < n_steps\<close>, and the call that brings it to
  \<open>n_steps\<close> makes the one training update and leaves the buffer empty. After any
  sequence of calls, whatever their done flags, the occupancy is below \<open>n_steps\<close>.
\<close>

theorem occupancy_follows_horizon:
  assumes "rollout_buffer s = Some []" and "0 < n_steps s"
  shows "((\<forall>t \<in> set ts. \<not> done_flag t) \<longrightarrow>
            pos (model_of (run h s ts)) = length ts mod nat (n_steps s)
          \<and> trains (calls_of (run h s ts)) = length ts div nat (n_steps s)
          \<and> times_trained (model_of (run h s ts))
              = times_trained s + int (length ts div nat (n_steps s))
          \<and> (int (length ts) < n_steps s \<longrightarrow>
                pos (model_of (run h s ts)) = length ts
              \<and> trains (calls_of (run h s ts)) = 0)
          \<and> (int (length ts) = n_steps s \<longrightarrow>
                pos (model_of (run h s ts)) = 0
              \<and> trains (calls_of (run h s ts)) = 1))
       \<and> int (pos (model_of (run h s ts))) < n_steps s"
proof -
  have l0: "int (length ([]::entry list)) < n_steps s" using assms(2) by simp
  have bound: "int (pos (model_of (run h s ts))) < n_steps s"
    using run_bound [OF assms(1) l0, of h ts] by (auto simp: pos_def)
  have quiet: "pos (model_of (run h s ts)) = length ts mod nat (n_steps s)
          \<and> trains (calls_of (run h s ts)) = length ts div nat (n_steps s)
          \<and> times_trained (model_of (run h s ts))
              = times_trained s + int (length ts div nat (n_steps s))"
    if q: "\<forall>t \<in> set ts. \<not> done_flag t"
    using run_occupancy [OF assms(1) l0, of ts h] q by (auto simp: pos_def)
  have small: "length ts mod nat (n_steps s) = length ts \<and> length ts div nat (n_steps s) = 0"
    if "int (length ts) < n_steps s"
    using that by simp
  have full: "length ts mod nat (n_steps s) = 0 \<and> length ts div nat (n_steps s) = 1"
    if f: "int (length ts) = n_steps s"
  proof -
    from f have "nat (n_steps s) = length ts" by simp
    moreover from f assms(2) have "0 < length ts" by (cases ts) auto
    ultimately show ?thesis by simp
  qed
  from bound quiet small full show ?thesis by presburger
qed

theorem occupancy_follows_horizon_witness:
  "rollout_buffer (CustomPPO_new 3 (Some ''hornet'')) = Some []
   \<and> 0 < n_steps (CustomPPO_new 3 (Some ''hornet''))
   \<and> \<not> done_flag (tr 1 False) \<and> \<not> done_flag (tr 2 False) \<and> \<not> done_flag (tr 0 False)
   \<and> pos (model_of (run heap0 (CustomPPO_new 3 (Some ''hornet''))
                       [tr 1 False, tr 2 False, tr 0 False])) = 0
   \<and> trains (calls_of (run heap0 (CustomPPO_new 3 (Some ''hornet''))
                          [tr 1 False, tr 2 False, tr 0 False])) = 1"
  using occupancy_follows_horizon
          [of "CustomPPO_new 3 (Some ''hornet'')" "[tr 1 False, tr 2 False, tr 0 False]" heap0]
  by (simp del: run.simps add: CustomPPO_new_def CustomPPO_init_def tr_def)

subsection \<open>Evaluating the methods on concrete objects\<close>

lemmas ppo_eval = store_transition_def finish_rollout_and_train_def checkpoint_def Let_def pos_def
  CustomPPO_new_def CustomPPO_init_def tr_def history_def heap0_def list_append_def
  default_episode_rewards_def calls_of_def heap_of_def model_of_def trains_def saves_def dones_def
  out_exn_def out_calls_def out_heap_def out_model_def

subsection \<open>The episode-reward history\<close>

lemma store_transition_history:
  assumes "store_transition h s t = (e, c, h1, s1)"
  shows "episode_rewards s1 = episode_rewards s
       \<and> length (history h1 s1)
           = length (history h s) + (if done_flag t then 1 else 0) + trains c
       \<and> (done_flag t \<or> 0 < trains c \<longrightarrow> current_episode_reward s1 = 0)"
  using assms
  by (auto simp: store_transition_def Let_def pos_def finish_rollout_and_train_def trains_def
                 checkpoint_def history_def list_append_def
           split: if_splits prod.splits option.splits)

lemma dones_Cons: "dones (t # ts) = (if done_flag t then 1 else 0) + dones ts"
  by (simp add: dones_def)

lemma run_history:
  "episode_rewards (model_of (run h s ts)) = episode_rewards s
   \<and> length (history (heap_of (run h s ts)) (model_of (run h s ts)))
       = length (history h s) + dones ts + trains (calls_of (run h s ts))"
proof (induction ts arbitrary: h s)
  case Nil
  show ?case by (simp add: model_of_def heap_of_def calls_of_def dones_def trains_def)
next
  case (Cons t ts)
  obtain e c h1 s1 where st: "store_transition h s t = (e, c, h1, s1)"
    by (cases "store_transition h s t") auto
  from store_transition_history [OF st] Cons.IH [of h1 s1] show ?case
    by (simp del: run.simps add: run_Cons [OF st] trains_append dones_Cons)
qed

text \<open>
  C5. After any sequence of \<open>store_transition\<close> calls the episode-reward history has
  grown by the number of calls with \<open>done = True\<close> plus the number of training flushes;
  on an object constructed with the default \<open>episode_rewards\<close> while the default list is
  still empty, its length is that sum. A call that has appended to the history leaves the
  current cumulative reward at 0.
\<close>

theorem history_counts_dones_and_flushes:
  "length (history (heap_of (run h s ts)) (model_of (run h s ts)))
     = length (history h s) + dones ts + trains (calls_of (run h s ts))
   \<and> length (history (heap_of (run heap0 (CustomPPO_init n buf boss sf tt ec None) ts))
                     (model_of (run heap0 (CustomPPO_init n buf boss sf tt ec None) ts)))
       = dones ts + trains (calls_of (run heap0 (CustomPPO_init n buf boss sf tt ec None) ts))
   \<and> (length (history h s)
         < length (history (out_heap (store_transition h s t))
                           (out_model (store_transition h s t)))
       \<longrightarrow> current_episode_reward (out_model (store_transition h s t)) = 0)"
proof -
  obtain e c h1 s1 where st: "store_transition h s t = (e, c, h1, s1)"
    by (cases "store_transition h s t") auto
  from store_transition_history [OF st]
  have "length (history h s) < length (history h1 s1) \<longrightarrow> current_episode_reward s1 = 0"
    by (auto split: if_splits)
  moreover have "history heap0 (CustomPPO_init n buf boss sf tt ec None) = []"
    by (simp add: history_def heap0_def)
  ultimately show ?thesis
    using run_history [of h s ts] run_history [of heap0 "CustomPPO_init n buf boss sf tt ec None" ts]
      st
    by (simp add: out_heap_def out_model_def)
qed

theorem history_counts_dones_and_flushes_witness:
  "length (history heap0 (CustomPPO_new 2 (Some ''hornet'')))
     < length (history (out_heap (store_transition heap0 (CustomPPO_new 2 (Some ''hornet''))
                                    (tr 1 True)))
                       (out_model (store_transition heap0 (CustomPPO_new 2 (Some ''hornet''))
                                    (tr 1 True))))
   \<and> current_episode_reward
         (out_model (store_transition heap0 (CustomPPO_new 2 (Some ''hornet'')) (tr 1 True))) = 0
   \<and> dones [tr 1 True, tr 2 False] = 1
   \<and> trains (calls_of (run heap0 (CustomPPO_new 2 (Some ''hornet''))
                          [tr 1 True, tr 2 False])) = 1
   \<and> length (history (heap_of (run heap0 (CustomPPO_new 2 (Some ''hornet''))
                                  [tr 1 True, tr 2 False]))
                       (model_of (run heap0 (CustomPPO_new 2 (Some ''hornet''))
                                  [tr 1 True, tr 2 False]))) = 2"
  using history_counts_dones_and_flushes
      [where h = heap0 and s = "CustomPPO_new 2 (Some ''hornet'')"
         and ts = "[tr 1 True, tr 2 False]" and t = "tr 1 True"
         and n = 2 and buf = "Some []" and boss = "Some ''hornet''" and sf = 50 and tt = 0
         and ec = 0]
  by (simp add: ppo_eval)

subsection \<open>The episode-start flag\<close>

lemma store_transition_flags:
  assumes "store_transition h s t = (e, c, h1, s1)"
  shows "\<forall>en \<in> set (added c). episode_start en = last_done s"
  using assms
  by (auto simp: store_transition_def Let_def pos_def finish_rollout_and_train_def
                 checkpoint_def added_append
           split: if_splits prod.splits option.splits)

lemma run_flags:
  assumes "rollout_buffer s \<noteq> None" and "boss_name s \<noteq> None"
  shows "map episode_start (added (calls_of (run h s ts)))
           = take (length ts) (last_done s # map done_flag ts)"
  using assms
proof (induction ts arbitrary: h s)
  case Nil
  show ?case by (simp add: calls_of_def)
next
  case (Cons t ts)
  obtain e c h1 s1 where st: "store_transition h s t = (e, c, h1, s1)"
    by (cases "store_transition h s t") auto
  from Cons.prems obtain buf where b: "rollout_buffer s = Some buf" by auto
  from Cons.prems have ok: "\<not> done_flag t \<or> boss_name s \<noteq> None" by simp
  note step = store_transition_stores [OF b ok st]
  from step Cons.prems have p: "rollout_buffer s1 \<noteq> None" "boss_name s1 \<noteq> None"
    by (auto split: if_splits)
  from Cons.IH [OF p, of h1] step show ?case
    by (simp del: run.simps add: run_Cons [OF st] added_append)
qed

text \<open>
  C6. On an object that has a rollout buffer and a boss name, every call of
  \<open>store_transition\<close> stores one transition, and the episode-start flag stored by call
  number \<open>k\<close> (counted from 0) is the \<open>done\<close> of call \<open>k - 1\<close>; for the first call it is
  the object's \<open>last_done\<close>, which \<open>__init__\<close> sets to \<open>False\<close>.
\<close>

theorem episode_start_is_previous_done:
  assumes "rollout_buffer s \<noteq> None" and "boss_name s \<noteq> None"
  shows "length (added (calls_of (run h s ts))) = length ts
       \<and> (\<forall>k < length ts.
            episode_start (added (calls_of (run h s ts)) ! k)
              = (if k = 0 then last_done s else done_flag (ts ! (k - 1))))
       \<and> last_done (CustomPPO_init n buf boss sf tt ec er) = False"
proof -
  let ?fl = "map episode_start (added (calls_of (run h s ts)))"
  have eq: "?fl = take (length ts) (last_done s # map done_flag ts)"
    by (rule run_flags [OF assms])
  then have "length ?fl = length ts" by simp
  then have len: "length (added (calls_of (run h s ts))) = length ts" by simp
  have "episode_start (added (calls_of (run h s ts)) ! k)
              = (if k = 0 then last_done s else done_flag (ts ! (k - 1)))"
    if k: "k < length ts" for k
  proof -
    from k len have "episode_start (added (calls_of (run h s ts)) ! k) = ?fl ! k" by simp
    also from eq k have "\<dots> = (last_done s # map done_flag ts) ! k" by simp
    also from k have "\<dots> = (if k = 0 then last_done s else done_flag (ts ! (k - 1)))"
      by (cases k) auto
    finally show ?thesis .
  qed
  with len show ?thesis by (simp add: CustomPPO_init_def)
qed

theorem episode_start_is_previous_done_witness:
  "rollout_buffer (CustomPPO_new 2 (Some ''hornet'')) \<noteq> None
   \<and> boss_name (CustomPPO_new 2 (Some ''hornet'')) \<noteq> None
   \<and> length (added (calls_of (run heap0 (CustomPPO_new 2 (Some ''hornet''))
                               [tr 1 True, tr 2 False, tr 0 False]))) = 3
   \<and> map episode_start (added (calls_of (run heap0 (CustomPPO_new 2 (Some ''hornet''))
                                           [tr 1 True, tr 2 False, tr 0 False])))
       = [False, True, False]"
  using episode_start_is_previous_done
      [of "CustomPPO_new 2 (Some ''hornet'')" heap0 "[tr 1 True, tr 2 False, tr 0 False]"]
  by (simp add: ppo_eval)

text \<open>
  C10. \<open>finish_rollout_and_train\<close> does not assign \<open>last_done\<close>. When a call of
  \<open>store_transition\<close> returns after a training flush, \<open>last_done\<close> is the \<open>done\<close> of
  that call, and it is the episode-start flag of whatever the next call stores.
\<close>

theorem flush_leaves_last_done:
  "last_done (out_model (finish_rollout_and_train h s nxt)) = last_done s
   \<and> (out_exn (store_transition h s t) = None
        \<and> 0 < trains (out_calls (store_transition h s t)) \<longrightarrow>
          last_done (out_model (store_transition h s t)) = done_flag t
        \<and> (\<forall>en \<in> set (added (out_calls
                 (store_transition (out_heap (store_transition h s t))
                                   (out_model (store_transition h s t)) t2))).
              episode_start en = done_flag t))"
proof -
  have a: "last_done (out_model (finish_rollout_and_train h s nxt)) = last_done s"
    by (auto simp: finish_rollout_and_train_def Let_def out_model_def split: option.splits)
  obtain e c h1 s1 where st: "store_transition h s t = (e, c, h1, s1)"
    by (cases "store_transition h s t") auto
  obtain e2 c2 h2 s2 where st2: "store_transition h1 s1 t2 = (e2, c2, h2, s2)"
    by (cases "store_transition h1 s1 t2") auto
  have b: "last_done s1 = done_flag t" if "e = None"
    using st that
    by (auto simp: store_transition_def Let_def pos_def finish_rollout_and_train_def
                 checkpoint_def
           split: if_splits prod.splits option.splits)
  from a b store_transition_flags [OF st2] st st2 show ?thesis
    by (simp add: out_exn_def out_calls_def out_heap_def out_model_def)
qed

theorem flush_leaves_last_done_witness:
  "out_exn (store_transition heap0 (CustomPPO_new 1 (Some ''hornet'')) (tr 1 False)) = None
   \<and> 0 < trains (out_calls (store_transition heap0 (CustomPPO_new 1 (Some ''hornet''))
                               (tr 1 False)))
   \<and> episodes_completed
         (out_model (store_transition heap0 (CustomPPO_new 1 (Some ''hornet'')) (tr 1 False))) = 1
   \<and> last_done
         (out_model (store_transition heap0 (CustomPPO_new 1 (Some ''hornet'')) (tr 1 False)))
       = False
   \<and> map episode_start (added (out_calls
         (store_transition
            (out_heap (store_transition heap0 (CustomPPO_new 1 (Some ''hornet'')) (tr 1 False)))
            (out_model (store_transition heap0 (CustomPPO_new 1 (Some ''hornet'')) (tr 1 False)))
            (tr 2 False)))) = [False]"
  using flush_leaves_last_done
      [of heap0 "CustomPPO_new 1 (Some ''hornet'')" "[]" "tr 1 False" "tr 2 False"]
  by (simp add: ppo_eval)

subsection \<open>Checkpoints\<close>

lemma store_transition_saves:
  "saves (out_calls (store_transition h s t))
     = (if done_flag t \<and> save_freq s \<noteq> 0 \<and> (episodes_completed s + 1) mod save_freq s = 0
        then (case boss_name s of None \<Rightarrow> [] | Some b \<Rightarrow> [Save b (episodes_completed s + 1)])
        else [])"
  by (auto simp: store_transition_def Let_def pos_def finish_rollout_and_train_def
                 checkpoint_def saves_def out_calls_def
           split: if_splits prod.splits option.splits)

lemma finish_rollout_and_train_counts_episode:
  "rollout_buffer s \<noteq> None \<Longrightarrow>
   episodes_completed (out_model (finish_rollout_and_train h s nxt)) = episodes_completed s + 1
   \<and> saves (out_calls (finish_rollout_and_train h s nxt)) = []"
  by (auto simp: finish_rollout_and_train_def Let_def saves_def out_calls_def out_model_def)

text \<open>
  C2. Rollout horizon 3, checkpoint interval 2, three transitions of which the last has
  \<open>done = True\<close>: the third call completes episode 1 and, the buffer being full, the
  flush completes episode 2. No \<open>self.save\<close> is called, although the count has become a
  positive multiple of the interval: \<open>finish_rollout_and_train\<close> increments the count
  without the test that \<open>store_transition\<close> makes after its own increment.
\<close>

theorem flush_skips_checkpoint:
  "episodes_completed (model_of (run heap0 (CustomPPO_init 3 (Some []) (Some ''hornet'') 2 0 0 None)
                                   [tr 0 False, tr 0 False, tr 1 True])) = 2
   \<and> trains (calls_of (run heap0 (CustomPPO_init 3 (Some []) (Some ''hornet'') 2 0 0 None)
                          [tr 0 False, tr 0 False, tr 1 True])) = 1
   \<and> saves (calls_of (run heap0 (CustomPPO_init 3 (Some []) (Some ''hornet'') 2 0 0 None)
                          [tr 0 False, tr 0 False, tr 1 True])) = []"
  by (simp add: ppo_eval)

subsection \<open>Constructing the object a second time\<close>

lemma CustomPPO_init_resets:
  "last_done (CustomPPO_init n (Some b) boss sf tt ec er) = False
   \<and> current_episode_reward (CustomPPO_init n (Some b) boss sf tt ec er) = 0
   \<and> rollout_buffer (CustomPPO_init n (Some b) boss sf tt ec er) = Some []
   \<and> episodes_completed (CustomPPO_init n (Some b) boss sf tt ec er) = ec
   \<and> times_trained (CustomPPO_init n (Some b) boss sf tt ec er) = tt
   \<and> episode_rewards (CustomPPO_init n (Some b) boss sf tt ec None) = default_episode_rewards"
  by (simp add: CustomPPO_init_def)

text \<open>
  C7. An object is constructed with the default arguments, one transition with reward 1
  and \<open>done = True\<close> is stored in it, and a second object is constructed with the default
  arguments. The first object's history was empty; the second object's history is
  \<open>[1]\<close>: both refer to the one default list, and the first object's episode is in it.
\<close>

theorem second_construction_keeps_history:
  "history heap0 (CustomPPO_new 3 (Some ''hornet'')) = []
   \<and> history (heap_of (run heap0 (CustomPPO_new 3 (Some ''hornet'')) [tr 1 True]))
              (CustomPPO_new 3 (Some ''hornet'')) = [1]
   \<and> episodes_completed (CustomPPO_new 3 (Some ''hornet'')) = 0"
  by (simp add: ppo_eval)

section \<open>Properties of the socket server\<close>

subsection \<open>The length field and the frame\<close>

lemma be32_digits:
  fixes n :: nat
  shows "(n div 2 ^ 24) * 2 ^ 24 + (n div 2 ^ 16 mod 256) * 2 ^ 16
         + (n div 2 ^ 8 mod 256) * 2 ^ 8 + n mod 256 = n"
proof -
  define a where "a = n div 256"
  define b where "b = a div 256"
  define c where "c = b div 256"
  define r0 where "r0 = n mod 256"
  define r1 where "r1 = a mod 256"
  define r2 where "r2 = b mod 256"
  have n: "n = 256 * a + r0" by (simp add: a_def r0_def)
  have a: "a = 256 * b + r1" by (simp add: b_def r1_def)
  have b: "b = 256 * c + r2" by (simp add: c_def r2_def)
  have d8: "n div 2 ^ 8 = a" by (simp add: a_def)
  have d16: "n div 2 ^ 16 = b"
    by (simp add: a_def b_def div_mult2_eq)
  have d24: "n div 2 ^ 24 = c"
    by (simp add: a_def b_def c_def div_mult2_eq)
  have "c * 2 ^ 24 + r2 * 2 ^ 16 + r1 * 2 ^ 8 + r0
          = 256 * (256 * (256 * c + r2) + r1) + r0" by simp
  also have "\<dots> = 256 * (256 * b + r1) + r0" by (simp only: b [symmetric])
  also have "\<dots> = 256 * a + r0" by (simp only: a [symmetric])
  also have "\<dots> = n" by (simp only: n [symmetric])
  finally have "c * 2 ^ 24 + r2 * 2 ^ 16 + r1 * 2 ^ 8 + r0 = n" .
  then show ?thesis
    unfolding d8 d16 d24 r0_def r1_def r2_def .
qed

lemma unpack_pack_be32:
  assumes "n < 2 ^ 32"
  shows "\<exists>bs. pack_be32 n = Inr bs \<and> length bs = 4 \<and> unpack_be32 bs = Inr n"
proof -
  from assms have "n div 2 ^ 24 < 256" by (simp add: less_mult_imp_div_less)
  then have "n div 2 ^ 24 mod 256 = n div 2 ^ 24" by simp
  with be32_digits [of n] assms show ?thesis
    by (simp add: pack_be32_def unat_of_nat)
qed

lemma MessageType_of_value:
  "MessageType_of (unat (of_nat (msg_value ty) :: byte)) = Inr ty"
  by (cases ty) (simp_all add: MessageType_of_def unat_of_nat)

lemma length4:
  "length lb = 4 \<Longrightarrow> \<exists>a b c d. lb = [a, b, c, d]"
  by (cases lb rule: list.exhaust; simp; rename_tac x xs; case_tac xs; simp;
      rename_tac y ys; case_tac ys; simp; rename_tac z zs; case_tac zs; simp)

lemma receive_header:
  assumes "length lb = 4"
  shows "\<exists>len. unpack_be32 lb = Inr len
         \<and> receive_message loads (lb @ tag # rest) =
             (case MessageType_of (unat tag) of
                Inl e \<Rightarrow> Inl e
              | Inr msg_type \<Rightarrow>
                  if 1 < len then
                    (case readexactly rest (len - 1) of
                       Inl e \<Rightarrow> Inl e
                     | Inr (payload_bytes, rd3) \<Rightarrow>
                         (case loads payload_bytes of
                            None \<Rightarrow> Inl (Exn ValueError ''malformed JSON'')
                          | Some payload \<Rightarrow> Inr ((msg_type, payload), rd3)))
                  else Inr ((msg_type, JObj []), rest))"
proof -
  from length4 [OF assms] obtain a b c d where lb: "lb = [a, b, c, d]" by blast
  show ?thesis
    by (simp add: lb receive_message_def readexactly_def)
qed

lemma receive_bad_tag:
  assumes "length lb = 4" and "MessageType_of (unat tag) = Inl e"
  shows "receive_message loads (lb @ tag # rest) = Inl e"
  using receive_header [OF assms(1), of loads tag rest] assms(2) by auto

lemma receive_payload:
  assumes "length lb = 4" and "unpack_be32 lb = Inr len" and "1 < len"
    and "MessageType_of (unat tag) = Inr ty" and "length pl = len - 1"
  shows "receive_message loads (lb @ tag # pl @ rest) =
           (case loads pl of
              None \<Rightarrow> Inl (Exn ValueError ''malformed JSON'')
            | Some payload \<Rightarrow> Inr ((ty, payload), rest))"
  using receive_header [OF assms(1), of loads tag "pl @ rest"] assms(2-5)
  by (auto simp: readexactly_def)

lemma send_message_fits:
  assumes "1 + length (dumps p) < 2 ^ 32"
  shows "\<exists>lb. pack_be32 (1 + length (dumps p)) = Inr lb \<and> length lb = 4
           \<and> unpack_be32 lb = Inr (1 + length (dumps p))
           \<and> send_message dumps ty p = Inr (lb @ of_nat (msg_value ty) # dumps p)"
proof -
  from unpack_pack_be32 [OF assms] obtain lb where
    "pack_be32 (1 + length (dumps p)) = Inr lb" "length lb = 4"
    "unpack_be32 lb = Inr (1 + length (dumps p))" by blast
  then show ?thesis by (simp add: send_message_def Let_def)
qed

lemma send_message_too_long:
  assumes "2 ^ 32 \<le> 1 + length (dumps p)"
  shows "send_message dumps ty p
           = Inl (Exn StructError ''I format requires 0 <= number <= 4294967295'')"
  using assms by (simp add: send_message_def Let_def pack_be32_def)

subsection \<open>Evaluating the example JSON library\<close>

lemmas codec_eval = ex_dumps_def ex_loads_def ex_docs_def bytes_of_def dquoted_def show_int_def
  digit_char_def send_message_def receive_message_def readexactly_def pack_be32_def
  MessageType_of_def Let_def unat_of_nat long_text_def

lemma show_nat_digit: "n < 10 \<Longrightarrow> show_nat n = [digit_char n]"
  by (subst show_nat.simps) simp

lemma ex_dumps_state: "ex_dumps (JObj [(''state'', JArr [])])
    = [123, 34, 115, 116, 97, 116, 101, 34, 58, 32, 91, 93, 125]"
  by (simp add: codec_eval)

lemma ex_dumps_init: "ex_dumps (JObj [(''boss_name'', JStr ''hornet''), (''observation_size'', JInt 4)])
    = [123, 34, 98, 111, 115, 115, 95, 110, 97, 109, 101, 34, 58, 32, 34, 104, 111, 114, 110, 101, 116, 34, 44, 32, 34, 111, 98, 115, 101, 114, 118, 97, 116, 105, 111, 110, 95, 115, 105, 122, 101, 34, 58, 32, 52, 125]"
  by (simp add: codec_eval show_nat_digit)

lemma ex_dumps_empty: "ex_dumps (JObj []) = [123, 125]"
  by (simp add: codec_eval)

lemma ex_loads_state:
  "ex_loads [123, 34, 115, 116, 97, 116, 101, 34, 58, 32, 91, 93, 125] = Some (JObj [(''state'', JArr [])])"
  by (simp add: ex_loads_def ex_docs_def ex_dumps_state ex_dumps_empty)

lemma ex_dumps_action:
  "ex_dumps (JObj [(''action'', JArr [JInt 0, JInt 1])])
     = [123, 34, 97, 99, 116, 105, 111, 110, 34, 58, 32, 91, 48, 44, 32, 49, 93, 125]"
  by (simp add: codec_eval show_nat_digit)

lemma ex_dumps_action_tuple:
  "ex_dumps (JObj [(''action'', JTuple [JInt 0, JInt 1])])
     = [123, 34, 97, 99, 116, 105, 111, 110, 34, 58, 32, 91, 48, 44, 32, 49, 93, 125]"
  by (simp add: codec_eval show_nat_digit)

lemma ex_loads_action:
  "ex_loads [123, 34, 97, 99, 116, 105, 111, 110, 34, 58, 32, 91, 48, 44, 32, 49, 93, 125]
     = Some (JObj [(''action'', JArr [JInt 0, JInt 1])])"
  by (simp add: ex_loads_def ex_docs_def ex_dumps_state ex_dumps_empty ex_dumps_init
                ex_dumps_action)

lemma ex_loads_brace: "ex_loads [123] = None"
  by (simp add: ex_loads_def ex_docs_def ex_dumps_state ex_dumps_empty ex_dumps_init
                ex_dumps_action)

subsection \<open>Encoding and decoding a message\<close>

text \<open>
  C4, as amended. For every message type and every payload whose JSON text is
  shorter than \<open>2 ^ 32 - 1\<close> bytes, \<open>send_message\<close> writes a 4-byte big-endian length
  \<open>L = 1 + length (dumps p)\<close> (the tag byte and the text, not the length field), the
  tag byte and the text. \<open>receive_message\<close> on these bytes, followed by anything, reads
  the 4 bytes, the tag byte and the \<open>L - 1\<close> bytes of text, leaves what follows unread,
  and returns the type with what \<open>json.loads\<close> makes of the text that \<open>json.dumps\<close>
  wrote (with the empty dict if the text were empty, which \<open>json.dumps\<close> never
  writes). So it returns the type and the payload exactly when the JSON library
  returns the payload from its own text.
\<close>

theorem frame_roundtrip:
  assumes "1 + length (dumps p) < 2 ^ 32"
  shows "\<exists>lb. length lb = 4 \<and> unpack_be32 lb = Inr (1 + length (dumps p))
           \<and> send_message dumps ty p = Inr (lb @ of_nat (msg_value ty) # dumps p)
           \<and> receive_message loads (lb @ of_nat (msg_value ty) # dumps p @ rest)
               = (if dumps p = [] then Inr ((ty, JObj []), rest)
                  else case loads (dumps p) of
                         None \<Rightarrow> Inl (Exn ValueError ''malformed JSON'')
                       | Some q \<Rightarrow> Inr ((ty, q), rest))
           \<and> (dumps p \<noteq> [] \<longrightarrow>
                (receive_message loads (lb @ of_nat (msg_value ty) # dumps p @ rest)
                   = Inr ((ty, p), rest))
                = (loads (dumps p) = Some p))"
proof -
  from send_message_fits [of dumps p ty] assms obtain lb where
    lb: "length lb = 4" "unpack_be32 lb = Inr (1 + length (dumps p))"
    and snd: "send_message dumps ty p = Inr (lb @ of_nat (msg_value ty) # dumps p)"
    by blast
  have rcv: "receive_message loads (lb @ of_nat (msg_value ty) # dumps p @ rest)
               = (if dumps p = [] then Inr ((ty, JObj []), rest)
                  else case loads (dumps p) of
                         None \<Rightarrow> Inl (Exn ValueError ''malformed JSON'')
                       | Some q \<Rightarrow> Inr ((ty, q), rest))"
  proof (cases "dumps p = []")
    case True
    with receive_header [OF lb(1), of loads "of_nat (msg_value ty)" rest] lb(2)
    show ?thesis by (simp add: MessageType_of_value)
  next
    case False
    then have long: "1 < 1 + length (dumps p)" by (cases "dumps p") auto
    from receive_payload [where loads = loads and rest = rest and pl = "dumps p",
            OF lb long MessageType_of_value] False
    show ?thesis by simp
  qed
  have "(receive_message loads (lb @ of_nat (msg_value ty) # dumps p @ rest)
           = Inr ((ty, p), rest))
        = (loads (dumps p) = Some p)" if "dumps p \<noteq> []"
    using that rcv by (auto split: option.splits)
  with lb snd rcv show ?thesis by blast
qed

theorem frame_roundtrip_witness:
  "1 + length (ex_dumps (JObj [(''state'', JArr [])])) < (2::nat) ^ 32
   \<and> ex_dumps (JObj [(''state'', JArr [])]) \<noteq> []
   \<and> ex_loads (ex_dumps (JObj [(''state'', JArr [])])) = Some (JObj [(''state'', JArr [])])
   \<and> send_message ex_dumps GET_ACTION (JObj [(''state'', JArr [])])
       = Inr [0, 0, 0, 14, 1, 123, 34, 115, 116, 97, 116, 101, 34, 58, 32, 91, 93, 125]
   \<and> receive_message ex_loads
         ([0, 0, 0, 14, 1, 123, 34, 115, 116, 97, 116, 101, 34, 58, 32, 91, 93, 125] @ [0, 0])
       = Inr ((GET_ACTION, JObj [(''state'', JArr [])]), [0, 0])"
proof -
  have h1: "ex_loads (ex_dumps (JObj [(''state'', JArr [])])) = Some (JObj [(''state'', JArr [])])"
    by (simp add: ex_dumps_state ex_loads_state)
  have h2: "ex_dumps (JObj [(''state'', JArr [])]) \<noteq> []" by (simp add: ex_dumps_state)
  have h3: "1 + length (ex_dumps (JObj [(''state'', JArr [])])) < (2::nat) ^ 32"
    by (simp add: ex_dumps_state)
  have s: "send_message ex_dumps GET_ACTION (JObj [(''state'', JArr [])])
       = Inr [0, 0, 0, 14, 1, 123, 34, 115, 116, 97, 116, 101, 34, 58, 32, 91, 93, 125]"
    by (simp add: send_message_def ex_dumps_state pack_be32_def)
  from frame_roundtrip [where loads = ex_loads and dumps = ex_dumps
        and p = "JObj [(''state'', JArr [])]" and ty = GET_ACTION and rest = "[0, 0]", OF h3]
    s h1 h2 h3
  show ?thesis by (auto simp: ex_dumps_state)
qed

text \<open>
  C4 as stated fails in two ways. A payload whose JSON text has \<open>2 ^ 32 - 1\<close> bytes or
  more is not encoded: \<open>struct.pack('>I', length)\<close> raises and nothing is written
  (the payload here is \<open>{"error": s}\<close> for a string \<open>s\<close> of \<open>2 ^ 32\<close> letters). And a
  payload that the JSON library does not return from its own text is not what the
  decoder returns: \<open>{"action": (0, 1)}\<close>, with a tuple, is written as
  \<open>{"action": [0, 1]}\<close> and comes back with a list.
\<close>

theorem payload_not_returned:
  "send_message ex_dumps ERROR (JObj [(''error'', JStr long_text)])
     = Inl (Exn StructError ''I format requires 0 <= number <= 4294967295'')
   \<and> send_message ex_dumps ACTION_RESPONSE (JObj [(''action'', JTuple [JInt 0, JInt 1])])
       = Inr action_frame
   \<and> receive_message ex_loads action_frame
       = Inr ((ACTION_RESPONSE, JObj [(''action'', JArr [JInt 0, JInt 1])]), [])
   \<and> JObj [(''action'', JArr [JInt 0, JInt 1])] \<noteq> JObj [(''action'', JTuple [JInt 0, JInt 1])]"
proof -
  have "2 ^ 32 \<le> 1 + length (ex_dumps (JObj [(''error'', JStr long_text)]))"
    by (simp add: ex_dumps_def bytes_of_def dquoted_def long_text_def)
  then have big: "send_message ex_dumps ERROR (JObj [(''error'', JStr long_text)])
     = Inl (Exn StructError ''I format requires 0 <= number <= 4294967295'')"
    by (rule send_message_too_long)
  have enc: "send_message ex_dumps ACTION_RESPONSE (JObj [(''action'', JTuple [JInt 0, JInt 1])])
       = Inr action_frame"
    by (simp add: send_message_def ex_dumps_action_tuple pack_be32_def action_frame_def)
  have dec: "receive_message ex_loads action_frame
       = Inr ((ACTION_RESPONSE, JObj [(''action'', JArr [JInt 0, JInt 1])]), [])"
    by (simp add: action_frame_def receive_message_def readexactly_def MessageType_of_def
                  ex_loads_action)
  from big enc dec show ?thesis by simp
qed

subsection \<open>The loop of \<open>handle_client\<close>\<close>

lemma loop_receive_raises:
  "receive_message loads rd = Inl e \<Longrightarrow> handle_client_loop dumps loads rl rd st = ([], st, e)"
  by (subst handle_client_loop.simps) simp

lemma loop_step:
  assumes "receive_message loads rd = Inr ((ty, payload), rd1)"
  shows "handle_client_loop dumps loads rl rd st =
           (case process_message dumps rl ty payload st of
              (Some e, out, st1) \<Rightarrow> (out, st1, e)
            | (None, out, st1) \<Rightarrow>
                (case handle_client_loop dumps loads rl rd1 st1 of
                   (outs, st2, e) \<Rightarrow> (out @ outs, st2, e)))"
  by (subst handle_client_loop.simps) (simp add: assms)

lemma respond_raises: "respond dumps ty r st = (Some e, out, st1) \<Longrightarrow> out = []"
  by (auto simp: respond_def split: sum.splits)

lemma dispatch_raises_before_writing:
  assumes "dispatch dumps rl ty payload st = (Some e, out, st1)"
  shows "out = []"
  using assms
  by (auto simp: dispatch_def handle_initialize_def handle_get_action_def
                 handle_store_transition_def
           split: if_splits sum.splits prod.splits dest: respond_raises)

lemma get_action_raises:
  assumes "getitem payload ''state'' = Inr state" and "rl_get_action rl state st = (Inl e, st1)"
  shows "dispatch dumps rl GET_ACTION payload st = (Some e, [], st1)"
  using assms by (simp add: dispatch_def handle_get_action_def)

lemma ex_dumps_error:
  "ex_dumps (JObj [(''error'', JStr ''Model not initialized'')])
     = [123, 34, 101, 114, 114, 111, 114, 34, 58, 32, 34, 77, 111, 100, 101, 108, 32, 110, 111,
        116, 32, 105, 110, 105, 116, 105, 97, 108, 105, 122, 101, 100, 34, 125]"
  by (simp add: codec_eval)

lemma ex_dumps_init_response:
  "ex_dumps (JObj [(''initialized'', JBool True), (''boss_name'', JStr ''hornet''),
                   (''observation_size'', JInt 4), (''checkpoint_loaded'', JBool False)])
     = [123, 34, 105, 110, 105, 116, 105, 97, 108, 105, 122, 101, 100, 34, 58, 32, 116, 114, 117,
        101, 44, 32, 34, 98, 111, 115, 115, 95, 110, 97, 109, 101, 34, 58, 32, 34, 104, 111, 114,
        110, 101, 116, 34, 44, 32, 34, 111, 98, 115, 101, 114, 118, 97, 116, 105, 111, 110, 95,
        115, 105, 122, 101, 34, 58, 32, 52, 44, 32, 34, 99, 104, 101, 99, 107, 112, 111, 105, 110,
        116, 95, 108, 111, 97, 100, 101, 100, 34, 58, 32, 102, 97, 108, 115, 101, 125]"
  by (simp add: codec_eval show_nat_digit)

lemma ex_loads_init:
  "ex_loads [123, 34, 98, 111, 115, 115, 95, 110, 97, 109, 101, 34, 58, 32, 34, 104, 111, 114,
             110, 101, 116, 34, 44, 32, 34, 111, 98, 115, 101, 114, 118, 97, 116, 105, 111, 110,
             95, 115, 105, 122, 101, 34, 58, 32, 52, 125]
     = Some (JObj [(''boss_name'', JStr ''hornet''), (''observation_size'', JInt 4)])"
  by (simp add: ex_loads_def ex_docs_def ex_dumps_state ex_dumps_empty ex_dumps_init)

lemma receive_get_action_frame:
  "receive_message ex_loads (get_action_frame @ rest)
     = Inr ((GET_ACTION, JObj [(''state'', JArr [])]), rest)"
  by (simp add: get_action_frame_def receive_message_def readexactly_def MessageType_of_def
                ex_loads_state)

lemma receive_initialize_frame:
  "receive_message ex_loads (initialize_frame @ rest)
     = Inr ((INITIALIZE, JObj [(''boss_name'', JStr ''hornet''), (''observation_size'', JInt 4)]),
            rest)"
  by (simp add: initialize_frame_def receive_message_def readexactly_def MessageType_of_def
                ex_loads_init)

lemma dispatch_get_action_uninitialised:
  "dispatch ex_dumps ex_rl GET_ACTION (JObj [(''state'', JArr [])]) False
     = (Some (Exn RuntimeError ''Model not initialized''), [], False)"
  by (simp add: dispatch_def handle_get_action_def ex_rl_def)

lemma send_error_frame:
  "send_message ex_dumps ERROR (JObj [(''error'', JStr ''Model not initialized'')])
     = Inr error_frame"
  by (simp add: send_message_def ex_dumps_error pack_be32_def error_frame_def)

lemma process_initialize:
  "process_message ex_dumps ex_rl INITIALIZE
      (JObj [(''boss_name'', JStr ''hornet''), (''observation_size'', JInt 4)]) False
     = (None, [init_response_frame], True)"
  by (simp add: process_message_def dispatch_def handle_initialize_def initialize_args_def
                initialize_response_def bind_exn_def ex_rl_def respond_def send_message_def
                ex_dumps_init_response pack_be32_def init_response_frame_def)

lemma loop_initialize_frame:
  "handle_client_loop ex_dumps ex_loads ex_rl initialize_frame False
     = ([init_response_frame], True,
        Exn IncompleteReadError ''bytes read on a total of expected bytes'')"
proof -
  have "receive_message ex_loads ([]::byte list)
          = Inl (Exn IncompleteReadError ''bytes read on a total of expected bytes'')"
    by (simp add: receive_message_def readexactly_def)
  then have e: "handle_client_loop ex_dumps ex_loads ex_rl [] True
          = ([], True, Exn IncompleteReadError ''bytes read on a total of expected bytes'')"
    by (rule loop_receive_raises)
  have r: "receive_message ex_loads initialize_frame
     = Inr ((INITIALIZE, JObj [(''boss_name'', JStr ''hornet''), (''observation_size'', JInt 4)]),
            [])"
    using receive_initialize_frame [of "[]"] by simp
  show ?thesis
    by (simp add: loop_step [OF r] process_initialize e)
qed

subsection \<open>Messages that cannot be decoded\<close>

text \<open>
  C3, as amended. When the tag byte of a message is not a value of \<open>MessageType\<close>, or
  its payload is not JSON, \<open>receive_message\<close> raises \<open>ValueError\<close>; the exception is
  caught by \<open>handle_client\<close> outside the loop. Nothing is written for that message
  (no error message, no acknowledgement), the state of the training process is as it
  was, what follows in the stream is not read, and the writer is closed.
\<close>

theorem protocol_error_closes_connection:
  "(length lb = 4 \<and> MessageType_of (unat tag) = Inl e \<longrightarrow>
      handle_client dumps loads rl (lb @ tag # rest) st
        = \<lparr> written = [], final_state = st, ended_by = e, writer_closed = True \<rparr>)
   \<and> (length lb = 4 \<and> unpack_be32 lb = Inr len \<and> 1 < len
        \<and> MessageType_of (unat tag) = Inr ty \<and> length pl = len - 1 \<and> loads pl = None \<longrightarrow>
      handle_client dumps loads rl (lb @ tag # pl @ rest) st
        = \<lparr> written = [], final_state = st, ended_by = Exn ValueError ''malformed JSON'',
            writer_closed = True \<rparr>)"
proof -
  have a: "handle_client dumps loads rl (lb @ tag # rest) st
        = \<lparr> written = [], final_state = st, ended_by = e, writer_closed = True \<rparr>"
    if "length lb = 4" "MessageType_of (unat tag) = Inl e"
    using receive_bad_tag [OF that, of loads rest]
    by (simp add: handle_client_def loop_receive_raises)
  have b: "handle_client dumps loads rl (lb @ tag # pl @ rest) st
        = \<lparr> written = [], final_state = st, ended_by = Exn ValueError ''malformed JSON'',
            writer_closed = True \<rparr>"
    if "length lb = 4" "unpack_be32 lb = Inr len" "1 < len"
       "MessageType_of (unat tag) = Inr ty" "length pl = len - 1" "loads pl = None"
    using receive_payload [OF that(1-5), of loads rest] that(6)
    by (simp add: handle_client_def loop_receive_raises)
  from a b show ?thesis by blast
qed

theorem protocol_error_closes_connection_witness:
  "length [0, 0, 0, 1 :: byte] = 4
   \<and> MessageType_of (unat (7 :: byte)) = Inl (Exn ValueError ''not a valid MessageType'')
   \<and> handle_client ex_dumps ex_loads ex_rl ([0, 0, 0, 1] @ 7 # [0, 0, 0, 1, 1]) True
       = \<lparr> written = [], final_state = True,
           ended_by = Exn ValueError ''not a valid MessageType'', writer_closed = True \<rparr>
   \<and> unpack_be32 [0, 0, 0, 2] = Inr 2
   \<and> MessageType_of (unat (2 :: byte)) = Inr STORE_TRANSITION
   \<and> ex_loads [123] = None
   \<and> handle_client ex_dumps ex_loads ex_rl ([0, 0, 0, 2] @ 2 # [123] @ [0, 0, 0, 1, 1]) True
       = \<lparr> written = [], final_state = True,
           ended_by = Exn ValueError ''malformed JSON'', writer_closed = True \<rparr>"
  using protocol_error_closes_connection
      [of "[0, 0, 0, 1]" 7 "Exn ValueError ''not a valid MessageType''" ex_dumps ex_loads ex_rl
          "[0, 0, 0, 1, 1]" True]
    protocol_error_closes_connection
      [of "[0, 0, 0, 2]" 2 "Exn ValueError ''not a valid MessageType''" ex_dumps ex_loads ex_rl
          "[0, 0, 0, 1, 1]" True 2 STORE_TRANSITION "[123]"]
  by (simp add: MessageType_of_def ex_loads_brace)

text \<open>
  C3 as stated fails: a message with the unknown tag 7, and a \<open>STORE_TRANSITION\<close>
  whose payload is the single byte \<open>{\<close>, each followed by a \<open>GET_ACTION\<close> message.
  No error message is written and the loop ends.
\<close>

theorem unknown_tag_gets_no_response:
  "handle_client ex_dumps ex_loads ex_rl [0, 0, 0, 1, 7, 0, 0, 0, 1, 1] False
     = \<lparr> written = [], final_state = False,
         ended_by = Exn ValueError ''not a valid MessageType'', writer_closed = True \<rparr>
   \<and> handle_client ex_dumps ex_loads ex_rl [0, 0, 0, 2, 2, 123, 0, 0, 0, 1, 1] False
     = \<lparr> written = [], final_state = False,
         ended_by = Exn ValueError ''malformed JSON'', writer_closed = True \<rparr>"
proof -
  have "receive_message ex_loads [0, 0, 0, 1, 7, 0, 0, 0, 1, 1]
          = Inl (Exn ValueError ''not a valid MessageType'')"
    by (simp add: receive_message_def readexactly_def MessageType_of_def)
  moreover have "receive_message ex_loads [0, 0, 0, 2, 2, 123, 0, 0, 0, 1, 1]
          = Inl (Exn ValueError ''malformed JSON'')"
    by (simp add: receive_message_def readexactly_def MessageType_of_def ex_loads_brace)
  ultimately show ?thesis
    by (simp add: handle_client_def loop_receive_raises)
qed

subsection \<open>Exceptions raised by a handler\<close>

text \<open>
  C8. When the handler that a decoded message is dispatched to raises an exception
  \<open>e\<close>, and the error message \<open>{"error": str(e)}\<close> fits a frame, \<open>process_message\<close>
  writes that error message and nothing else and returns normally, and the loop goes
  on with the next message in the state the handler left.
\<close>

theorem handler_exception_becomes_error_response:
  assumes "receive_message loads rd = Inr ((ty, payload), rd1)"
    and "dispatch dumps rl ty payload st = (Some e, out, st1)"
    and "send_message dumps ERROR (JObj [(''error'', JStr (str_exn e))]) = Inr full_message"
  shows "process_message dumps rl ty payload st = (None, [full_message], st1)
       \<and> handle_client_loop dumps loads rl rd st
           = (full_message # fst (handle_client_loop dumps loads rl rd1 st1),
              snd (handle_client_loop dumps loads rl rd1 st1))"
proof -
  from dispatch_raises_before_writing [OF assms(2)] have out: "out = []" .
  from assms(2,3) out
  have pm: "process_message dumps rl ty payload st = (None, [full_message], st1)"
    by (simp add: process_message_def)
  from loop_step [OF assms(1), of dumps rl st] pm show ?thesis
    by (simp split: prod.splits)
qed

theorem handler_exception_becomes_error_response_witness:
  "receive_message ex_loads (get_action_frame @ initialize_frame)
     = Inr ((GET_ACTION, JObj [(''state'', JArr [])]), initialize_frame)
   \<and> dispatch ex_dumps ex_rl GET_ACTION (JObj [(''state'', JArr [])]) False
       = (Some (Exn RuntimeError ''Model not initialized''), [], False)
   \<and> send_message ex_dumps ERROR (JObj [(''error'', JStr ''Model not initialized'')])
       = Inr error_frame
   \<and> handle_client ex_dumps ex_loads ex_rl (get_action_frame @ initialize_frame) False
       = \<lparr> written = [error_frame, init_response_frame], final_state = True,
           ended_by = Exn IncompleteReadError ''bytes read on a total of expected bytes'',
           writer_closed = True \<rparr>"
proof -
  have s: "send_message ex_dumps ERROR
             (JObj [(''error'', JStr (str_exn (Exn RuntimeError ''Model not initialized'')))])
           = Inr error_frame"
    by (simp add: send_error_frame)
  from handler_exception_becomes_error_response
         [OF receive_get_action_frame dispatch_get_action_uninitialised s]
  show ?thesis
    by (simp add: receive_get_action_frame dispatch_get_action_uninitialised send_error_frame
                  handle_client_def loop_initialize_frame)
qed

subsection \<open>Message types without a handler\<close>

text \<open>
  C9. The four server-to-client tags are values of \<open>MessageType\<close>, so a message that
  carries one is decoded. \<open>process_message\<close> has no branch for them: it writes nothing,
  raises nothing and leaves the state as it was, and the loop goes on with the next
  message.
\<close>

theorem skipped_message_types:
  assumes "ty = INIT_RESPONSE \<or> ty = ACTION_RESPONSE \<or> ty = TRANSITION_ACK \<or> ty = ERROR"
  shows "MessageType_of (msg_value ty) = Inr ty
       \<and> process_message dumps rl ty payload st = (None, [], st)
       \<and> (receive_message loads rd = Inr ((ty, payload), rd1) \<longrightarrow>
            handle_client_loop dumps loads rl rd st = handle_client_loop dumps loads rl rd1 st)"
proof -
  from assms have v: "MessageType_of (msg_value ty) = Inr ty"
    by (auto simp: MessageType_of_def)
  from assms have pm: "process_message dumps rl ty payload st = (None, [], st)"
    by (auto simp: process_message_def dispatch_def)
  have "handle_client_loop dumps loads rl rd st = handle_client_loop dumps loads rl rd1 st"
    if "receive_message loads rd = Inr ((ty, payload), rd1)"
    using loop_step [OF that, of dumps rl st] pm by (simp split: prod.splits)
  with v pm show ?thesis by blast
qed
theorem skipped_message_types_witness:
  "receive_message ex_loads [0, 0, 0, 1, 12, 0, 0, 0, 1, 255]
     = Inr ((TRANSITION_ACK, JObj []), [0, 0, 0, 1, 255])
   \<and> process_message ex_dumps ex_rl TRANSITION_ACK (JObj []) False = (None, [], False)
   \<and> handle_client_loop ex_dumps ex_loads ex_rl [0, 0, 0, 1, 12, 0, 0, 0, 1, 255] False
       = handle_client_loop ex_dumps ex_loads ex_rl [0, 0, 0, 1, 255] False"
proof -
  have r: "receive_message ex_loads [0, 0, 0, 1, 12, 0, 0, 0, 1, 255]
     = Inr ((TRANSITION_ACK, JObj []), [0, 0, 0, 1, 255])"
    by (simp add: receive_message_def readexactly_def MessageType_of_def)
  from skipped_message_types
         [of TRANSITION_ACK ex_dumps ex_rl "JObj []" False ex_loads
             "[0, 0, 0, 1, 12, 0, 0, 0, 1, 255]" "[0, 0, 0, 1, 255]"] r
  show ?thesis by simp
qed

end
